theory Spec2Isabelle
  imports Complex_Main "HOL-Library.Word"
begin

section \<open>The operation catalogue of casadi\_math.hpp\<close>

text \<open>
  The enumeration \<open>Operation\<close> of the header, in the order of its declaration. The guard
  \<open>NUM_BUILT_IN_OPS\<close> is the enumerator after \<open>PRINTME\<close>; it is no operation and is kept
  apart as a number.
\<close>

datatype Operation =
    ADD | SUB | MUL | DIV
  | NEG | EXP | LOG | POW | CONSTPOW
  | SQRT | SIN | COS | TAN
  | ASIN | ACOS | ATAN
  | STEP
  | FLOOR | CEIL | EQUALITY
  | ERF | FMIN | FMAX
  | INV
  | SINH | COSH | TANH
  | PRINTME

definition builtin_ops :: "Operation list" where
  "builtin_ops =
     [ADD, SUB, MUL, DIV,
      NEG, EXP, LOG, POW, CONSTPOW,
      SQRT, SIN, COS, TAN,
      ASIN, ACOS, ATAN,
      STEP,
      FLOOR, CEIL, EQUALITY,
      ERF, FMIN, FMAX,
      INV,
      SINH, COSH, TANH,
      PRINTME]"

definition NUM_BUILT_IN_OPS :: nat where
  "NUM_BUILT_IN_OPS = 28"

text \<open>The value of an enumerator: its position in the declaration.\<close>

definition enum_value :: "Operation \<Rightarrow> nat" where
  "enum_value I =
     (case I of
        ADD \<Rightarrow> 0 | SUB \<Rightarrow> 1 | MUL \<Rightarrow> 2 | DIV \<Rightarrow> 3
      | NEG \<Rightarrow> 4 | EXP \<Rightarrow> 5 | LOG \<Rightarrow> 6 | POW \<Rightarrow> 7 | CONSTPOW \<Rightarrow> 8
      | SQRT \<Rightarrow> 9 | SIN \<Rightarrow> 10 | COS \<Rightarrow> 11 | TAN \<Rightarrow> 12
      | ASIN \<Rightarrow> 13 | ACOS \<Rightarrow> 14 | ATAN \<Rightarrow> 15
      | STEP \<Rightarrow> 16
      | FLOOR \<Rightarrow> 17 | CEIL \<Rightarrow> 18 | EQUALITY \<Rightarrow> 19
      | ERF \<Rightarrow> 20 | FMIN \<Rightarrow> 21 | FMAX \<Rightarrow> 22
      | INV \<Rightarrow> 23
      | SINH \<Rightarrow> 24 | COSH \<Rightarrow> 25 | TANH \<Rightarrow> 26
      | PRINTME \<Rightarrow> 27)"

text \<open>
  The dispatch routines take the operation as an \<open>unsigned char\<close>. \<open>op_code\<close> is the byte
  an enumerator is passed as, \<open>case_label\<close> is the \<open>case\<close> label a byte selects in a
  \<open>switch\<close> over all enumerators, if any.
\<close>

definition op_code :: "Operation \<Rightarrow> 8 word" where
  "op_code I = of_nat (enum_value I)"

definition case_label :: "8 word \<Rightarrow> Operation option" where
  "case_label op =
     (if unat op < NUM_BUILT_IN_OPS then Some (builtin_ops ! unat op) else None)"

section \<open>The operand type\<close>

text \<open>
  Every routine is a template over the operand type \<open>T\<close>. The arithmetic the bodies use
  of \<open>T\<close> is a parameter of the model: the operators, the comparisons (whose \<open>bool\<close>
  result the bodies store into a \<open>T\<close>), \<open>operator!\<close> on a \<open>T\<close> stored back into a \<open>T\<close>,
  the conversion of the literals \<open>0\<close>, \<open>1\<close>, \<open>-1\<close>, \<open>2\<close>, \<open>0.\<close> and \<open>1.\<close>, the constant
  \<open>M_PI\<close> and the elementary functions of \<open>cmath\<close>.
\<close>

record 'a arith =
  lit :: "int \<Rightarrow> 'a"
  M_PI :: 'a
  op_add :: "'a \<Rightarrow> 'a \<Rightarrow> 'a"
  op_sub :: "'a \<Rightarrow> 'a \<Rightarrow> 'a"
  op_mul :: "'a \<Rightarrow> 'a \<Rightarrow> 'a"
  op_div :: "'a \<Rightarrow> 'a \<Rightarrow> 'a"
  op_neg :: "'a \<Rightarrow> 'a"
  op_ge :: "'a \<Rightarrow> 'a \<Rightarrow> 'a"
  op_le :: "'a \<Rightarrow> 'a \<Rightarrow> 'a"
  op_eq :: "'a \<Rightarrow> 'a \<Rightarrow> 'a"
  op_not :: "'a \<Rightarrow> 'a"
  f_exp :: "'a \<Rightarrow> 'a"
  f_log :: "'a \<Rightarrow> 'a"
  f_pow :: "'a \<Rightarrow> 'a \<Rightarrow> 'a"
  f_sqrt :: "'a \<Rightarrow> 'a"
  f_sin :: "'a \<Rightarrow> 'a"
  f_cos :: "'a \<Rightarrow> 'a"
  f_tan :: "'a \<Rightarrow> 'a"
  f_asin :: "'a \<Rightarrow> 'a"
  f_acos :: "'a \<Rightarrow> 'a"
  f_atan :: "'a \<Rightarrow> 'a"
  f_floor :: "'a \<Rightarrow> 'a"
  f_ceil :: "'a \<Rightarrow> 'a"
  f_erf :: "'a \<Rightarrow> 'a"
  f_fmin :: "'a \<Rightarrow> 'a \<Rightarrow> 'a"
  f_fmax :: "'a \<Rightarrow> 'a \<Rightarrow> 'a"
  f_sinh :: "'a \<Rightarrow> 'a"
  f_cosh :: "'a \<Rightarrow> 'a"
  f_tanh :: "'a \<Rightarrow> 'a"

definition timesTwo :: "'a arith \<Rightarrow> 'a \<Rightarrow> 'a" where
  "timesTwo T x = op_add T x x"

definition square :: "'a arith \<Rightarrow> 'a \<Rightarrow> 'a" where
  "square T x = op_mul T x x"

section \<open>The per-operation classes, on values\<close>

text \<open>
  \<open>UnaryOperation<I>\<close>. The output \<open>f\<close> and the array \<open>d\<close> (two cells) are passed in and
  returned. The primary template only declares \<open>fcn\<close> and \<open>der\<close>; it is specialised for
  the eighteen one-operand codes and never instantiated for the others, where the model
  returns the output as it came.
\<close>

definition UnaryOperation_ndeps :: "Operation \<Rightarrow> int" where
  "UnaryOperation_ndeps I = 1"

definition UnaryOperation_isCommutative :: "Operation \<Rightarrow> bool" where
  "UnaryOperation_isCommutative I = True"

definition UnaryOperation_f0_is_zero :: "Operation \<Rightarrow> bool" where
  "UnaryOperation_f0_is_zero I =
     (case I of
        NEG \<Rightarrow> True | EXP \<Rightarrow> False | LOG \<Rightarrow> False
      | SQRT \<Rightarrow> True | SIN \<Rightarrow> True | COS \<Rightarrow> False | TAN \<Rightarrow> True
      | ASIN \<Rightarrow> True | ACOS \<Rightarrow> False | ATAN \<Rightarrow> True
      | STEP \<Rightarrow> False | FLOOR \<Rightarrow> True | CEIL \<Rightarrow> True
      | ERF \<Rightarrow> True | INV \<Rightarrow> False
      | SINH \<Rightarrow> True | COSH \<Rightarrow> False | TANH \<Rightarrow> True
      | _ \<Rightarrow> False)"

definition UnaryOperation_fcn :: "'a arith \<Rightarrow> Operation \<Rightarrow> 'a \<Rightarrow> 'a \<Rightarrow> 'a" where
  "UnaryOperation_fcn T I x f =
     (case I of
        NEG \<Rightarrow> op_neg T x
      | EXP \<Rightarrow> f_exp T x
      | LOG \<Rightarrow> f_log T x
      | SQRT \<Rightarrow> f_sqrt T x
      | SIN \<Rightarrow> f_sin T x
      | COS \<Rightarrow> f_cos T x
      | TAN \<Rightarrow> f_tan T x
      | ASIN \<Rightarrow> f_asin T x
      | ACOS \<Rightarrow> f_acos T x
      | ATAN \<Rightarrow> f_atan T x
      | STEP \<Rightarrow> op_ge T x (lit T 0)
      | FLOOR \<Rightarrow> f_floor T x
      | CEIL \<Rightarrow> f_ceil T x
      | ERF \<Rightarrow> f_erf T x
      | INV \<Rightarrow> op_div T (lit T 1) x
      | SINH \<Rightarrow> f_sinh T x
      | COSH \<Rightarrow> f_cosh T x
      | TANH \<Rightarrow> f_tanh T x
      | _ \<Rightarrow> f)"

definition UnaryOperation_der ::
  "'a arith \<Rightarrow> Operation \<Rightarrow> 'a \<Rightarrow> 'a \<Rightarrow> 'a \<times> 'a \<Rightarrow> 'a \<times> 'a" where
  "UnaryOperation_der T I x f d =
     (case I of
        NEG \<Rightarrow> (lit T (- 1), snd d)
      | EXP \<Rightarrow> (f, snd d)
      | LOG \<Rightarrow> (op_div T (lit T 1) x, snd d)
      | SQRT \<Rightarrow> (op_div T (lit T 1) (timesTwo T f), snd d)
      | SIN \<Rightarrow> (f_cos T x, snd d)
      | COS \<Rightarrow> (op_neg T (f_sin T x), snd d)
      | TAN \<Rightarrow> (op_div T (lit T 1) (square T (f_cos T x)), snd d)
      | ASIN \<Rightarrow> (op_div T (lit T 1) (f_sqrt T (op_sub T (lit T 1) (op_mul T x x))), snd d)
      | ACOS \<Rightarrow> (op_div T (lit T (- 1)) (f_sqrt T (op_sub T (lit T 1) (op_mul T x x))), snd d)
      | ATAN \<Rightarrow> (op_div T (lit T 1) (op_add T (lit T 1) (op_mul T x x)), snd d)
      | STEP \<Rightarrow> (lit T 0, snd d)
      | FLOOR \<Rightarrow> (lit T 0, snd d)
      | CEIL \<Rightarrow> (lit T 0, snd d)
      | ERF \<Rightarrow> (op_mul T (op_div T (lit T 2) (f_sqrt T (M_PI T)))
                          (f_exp T (op_mul T (op_neg T x) x)), snd d)
      | INV \<Rightarrow> (op_mul T (op_neg T f) f, snd d)
      | SINH \<Rightarrow> (f_cosh T x, snd d)
      | COSH \<Rightarrow> (op_neg T (f_sinh T x), snd d)
      | TANH \<Rightarrow> (op_sub T (lit T 1) (op_mul T f f), snd d)
      | _ \<Rightarrow> d)"

text \<open>
  \<open>BinaryOperation<I>\<close>: the ten specialisations, and the primary template, which
  forwards to \<open>UnaryOperation<I>\<close> and then stores zero in \<open>d[1]\<close>. The line that
  \<open>BinaryOperation<PRINTME>::fcn\<close> writes to the standard output for \<open>double\<close> when
  \<open>WITH_PRINTME\<close> is defined is left out; the value it stores is \<open>x\<close> either way.
\<close>

definition BinaryOperation_ndeps :: "Operation \<Rightarrow> int" where
  "BinaryOperation_ndeps I =
     (case I of
        ADD \<Rightarrow> 2 | SUB \<Rightarrow> 2 | MUL \<Rightarrow> 2 | DIV \<Rightarrow> 2
      | POW \<Rightarrow> 2 | CONSTPOW \<Rightarrow> 2 | EQUALITY \<Rightarrow> 2
      | FMIN \<Rightarrow> 2 | FMAX \<Rightarrow> 2 | PRINTME \<Rightarrow> 2
      | _ \<Rightarrow> UnaryOperation_ndeps I)"

definition BinaryOperation_isCommutative :: "Operation \<Rightarrow> bool" where
  "BinaryOperation_isCommutative I =
     (case I of
        ADD \<Rightarrow> True | SUB \<Rightarrow> False | MUL \<Rightarrow> True | DIV \<Rightarrow> False
      | POW \<Rightarrow> False | CONSTPOW \<Rightarrow> False | EQUALITY \<Rightarrow> False
      | FMIN \<Rightarrow> True | FMAX \<Rightarrow> True | PRINTME \<Rightarrow> False
      | _ \<Rightarrow> True)"

definition BinaryOperation_f00_is_zero :: "Operation \<Rightarrow> bool" where
  "BinaryOperation_f00_is_zero I =
     (case I of
        ADD \<Rightarrow> True | SUB \<Rightarrow> True | MUL \<Rightarrow> True | DIV \<Rightarrow> False
      | POW \<Rightarrow> False | CONSTPOW \<Rightarrow> False | EQUALITY \<Rightarrow> False
      | FMIN \<Rightarrow> True | FMAX \<Rightarrow> True | PRINTME \<Rightarrow> False
      | _ \<Rightarrow> UnaryOperation_f0_is_zero I)"

definition BinaryOperation_f0x_is_zero :: "Operation \<Rightarrow> bool" where
  "BinaryOperation_f0x_is_zero I =
     (case I of
        ADD \<Rightarrow> False | SUB \<Rightarrow> False | MUL \<Rightarrow> True | DIV \<Rightarrow> True
      | POW \<Rightarrow> False | CONSTPOW \<Rightarrow> False | EQUALITY \<Rightarrow> False
      | FMIN \<Rightarrow> False | FMAX \<Rightarrow> False | PRINTME \<Rightarrow> False
      | _ \<Rightarrow> UnaryOperation_f0_is_zero I)"

definition BinaryOperation_fx0_is_zero :: "Operation \<Rightarrow> bool" where
  "BinaryOperation_fx0_is_zero I =
     (case I of
        ADD \<Rightarrow> False | SUB \<Rightarrow> False | MUL \<Rightarrow> True | DIV \<Rightarrow> False
      | POW \<Rightarrow> False | CONSTPOW \<Rightarrow> False | EQUALITY \<Rightarrow> False
      | FMIN \<Rightarrow> False | FMAX \<Rightarrow> False | PRINTME \<Rightarrow> False
      | _ \<Rightarrow> False)"

definition BinaryOperation_fcn :: "'a arith \<Rightarrow> Operation \<Rightarrow> 'a \<Rightarrow> 'a \<Rightarrow> 'a \<Rightarrow> 'a" where
  "BinaryOperation_fcn T I x y f =
     (case I of
        ADD \<Rightarrow> op_add T x y
      | SUB \<Rightarrow> op_sub T x y
      | MUL \<Rightarrow> op_mul T x y
      | DIV \<Rightarrow> op_div T x y
      | POW \<Rightarrow> f_pow T x y
      | CONSTPOW \<Rightarrow> f_pow T x y
      | EQUALITY \<Rightarrow> op_eq T x y
      | FMIN \<Rightarrow> f_fmin T x y
      | FMAX \<Rightarrow> f_fmax T x y
      | PRINTME \<Rightarrow> x
      | _ \<Rightarrow> UnaryOperation_fcn T I x f)"

definition BinaryOperation_der ::
  "'a arith \<Rightarrow> Operation \<Rightarrow> 'a \<Rightarrow> 'a \<Rightarrow> 'a \<Rightarrow> 'a \<times> 'a \<Rightarrow> 'a \<times> 'a" where
  "BinaryOperation_der T I x y f d =
     (case I of
        ADD \<Rightarrow> (lit T 1, lit T 1)
      | SUB \<Rightarrow> (lit T 1, lit T (- 1))
      | MUL \<Rightarrow> (y, x)
      | DIV \<Rightarrow> (op_div T (lit T 1) y, op_div T (op_neg T f) y)
      | POW \<Rightarrow> (op_mul T y (f_pow T x (op_sub T y (lit T 1))), op_mul T (f_log T x) f)
      | CONSTPOW \<Rightarrow> (op_mul T y (f_pow T x (op_sub T y (lit T 1))), lit T 0)
      | EQUALITY \<Rightarrow> (lit T 0, lit T 0)
      | FMIN \<Rightarrow> (op_le T x y, op_not T (op_le T x y))
      | FMAX \<Rightarrow> (op_ge T x y, op_not T (op_ge T x y))
      | PRINTME \<Rightarrow> (lit T 1, lit T 0)
      | _ \<Rightarrow> (fst (UnaryOperation_der T I x f d), lit T 0))"

section \<open>The dispatch routines of casadi\_math, on values\<close>

text \<open>
  \<open>funNew\<close>, \<open>derNew\<close>: a \<open>switch\<close> over the byte with one \<open>case\<close> per enumerator and no
  \<open>default\<close>. Every case of \<open>funNew\<close> calls \<open>BinaryOperation<I>::fcn\<close> of its own label;
  every case of \<open>derNew\<close> calls \<open>BinaryOperation<I>::der\<close> of its own label, but for the
  label \<open>PRINTME\<close>, which calls \<open>BinaryOperation<TANH>::der\<close>.
\<close>

definition funNew :: "'a arith \<Rightarrow> 8 word \<Rightarrow> 'a \<Rightarrow> 'a \<Rightarrow> 'a \<Rightarrow> 'a" where
  "funNew T op x y f =
     (case case_label op of
        None \<Rightarrow> f
      | Some I \<Rightarrow> BinaryOperation_fcn T I x y f)"

definition derNew :: "'a arith \<Rightarrow> 8 word \<Rightarrow> 'a \<Rightarrow> 'a \<Rightarrow> 'a \<Rightarrow> 'a \<times> 'a \<Rightarrow> 'a \<times> 'a" where
  "derNew T op x y f d =
     (case case_label op of
        None \<Rightarrow> d
      | Some PRINTME \<Rightarrow> BinaryOperation_der T TANH x y f d
      | Some I \<Rightarrow> BinaryOperation_der T I x y f d)"

definition derFNew ::
  "'a arith \<Rightarrow> 8 word \<Rightarrow> 'a \<Rightarrow> 'a \<Rightarrow> 'a \<Rightarrow> 'a \<times> 'a \<Rightarrow> 'a \<Rightarrow> 'a \<times> 'a \<times> 'a" where
  \<comment> \<open>\<open>ff0\<close> is the content of the local \<open>T ff\<close> before anything is stored in it;
      the result is the final \<open>f\<close> and the final \<open>d\<close>.\<close>
  "derFNew T op x y f d ff0 =
     (case case_label op of
        None \<Rightarrow> (ff0, d)
      | Some PRINTME \<Rightarrow>
          (let ff = BinaryOperation_fcn T PRINTME x y ff0
           in (ff, BinaryOperation_der T TANH x y ff d))
      | Some I \<Rightarrow>
          (let ff = BinaryOperation_fcn T I x y ff0
           in (ff, BinaryOperation_der T I x y ff d)))"

section \<open>Printing\<close>

text \<open>
  The output stream is the text written to it so far. The macros \<open>printRoutinesUnary\<close>
  and \<open>printRoutines\<close> define the members \<open>print\<close>, \<open>printPre\<close>, (\<open>printSep\<close>,)
  \<open>printPost\<close> of a specialisation from its two or three string literals.
\<close>

record unary_printers =
  u_print :: "string \<Rightarrow> string \<Rightarrow> string"
  u_printPre :: "string \<Rightarrow> string"
  u_printPost :: "string \<Rightarrow> string"

record binary_printers =
  b_print :: "string \<Rightarrow> string \<Rightarrow> string \<Rightarrow> string"
  b_printPre :: "string \<Rightarrow> string"
  b_printSep :: "string \<Rightarrow> string"
  b_printPost :: "string \<Rightarrow> string"

definition printRoutinesUnary :: "string \<Rightarrow> string \<Rightarrow> unary_printers" where
  "printRoutinesUnary pre post =
     \<lparr> u_print = (\<lambda>stream x. stream @ pre @ x @ post),
       u_printPre = (\<lambda>stream. stream @ pre),
       u_printPost = (\<lambda>stream. stream @ post) \<rparr>"

definition printRoutines :: "string \<Rightarrow> string \<Rightarrow> string \<Rightarrow> binary_printers" where
  "printRoutines pre sep post =
     \<lparr> b_print = (\<lambda>stream x y. stream @ pre @ x @ sep @ y @ post),
       b_printPre = (\<lambda>stream. stream @ pre),
       b_printSep = (\<lambda>stream. stream @ sep),
       b_printPost = (\<lambda>stream. stream @ post) \<rparr>"

definition UnaryOperation_printers :: "Operation \<Rightarrow> unary_printers" where
  \<comment> \<open>the primary template declares the three members and defines none; it is not
      instantiated, and the model writes nothing there\<close>
  "UnaryOperation_printers I =
     (case I of
        NEG \<Rightarrow> printRoutinesUnary ''(-'' '')''
      | EXP \<Rightarrow> printRoutinesUnary ''exp('' '')''
      | LOG \<Rightarrow> printRoutinesUnary ''log('' '')''
      | SQRT \<Rightarrow> printRoutinesUnary ''sqrt('' '')''
      | SIN \<Rightarrow> printRoutinesUnary ''sin('' '')''
      | COS \<Rightarrow> printRoutinesUnary ''cos('' '')''
      | TAN \<Rightarrow> printRoutinesUnary ''tan('' '')''
      | ASIN \<Rightarrow> printRoutinesUnary ''asin('' '')''
      | ACOS \<Rightarrow> printRoutinesUnary ''acos('' '')''
      | ATAN \<Rightarrow> printRoutinesUnary ''atan('' '')''
      | STEP \<Rightarrow> printRoutinesUnary ''('' ''>=0)''
      | FLOOR \<Rightarrow> printRoutinesUnary ''floor('' '')''
      | CEIL \<Rightarrow> printRoutinesUnary ''ceil('' '')''
      | ERF \<Rightarrow> printRoutinesUnary ''erf('' '')''
      | INV \<Rightarrow> printRoutinesUnary ''(1/'' '')''
      | SINH \<Rightarrow> printRoutinesUnary ''sinh('' '')''
      | COSH \<Rightarrow> printRoutinesUnary ''cosh('' '')''
      | TANH \<Rightarrow> printRoutinesUnary ''tanh('' '')''
      | _ \<Rightarrow> \<lparr> u_print = (\<lambda>stream x. stream),
               u_printPre = (\<lambda>stream. stream),
               u_printPost = (\<lambda>stream. stream) \<rparr>)"

definition UnaryOperation_printPre :: "Operation \<Rightarrow> string \<Rightarrow> string" where
  "UnaryOperation_printPre I = u_printPre (UnaryOperation_printers I)"

definition UnaryOperation_printPost :: "Operation \<Rightarrow> string \<Rightarrow> string" where
  "UnaryOperation_printPost I = u_printPost (UnaryOperation_printers I)"

definition BinaryOperation_printPre :: "Operation \<Rightarrow> string \<Rightarrow> string" where
  "BinaryOperation_printPre I =
     (case I of
        ADD \<Rightarrow> b_printPre (printRoutines ''('' ''+'' '')'')
      | SUB \<Rightarrow> b_printPre (printRoutines ''('' ''-'' '')'')
      | MUL \<Rightarrow> b_printPre (printRoutines ''('' ''*'' '')'')
      | DIV \<Rightarrow> b_printPre (printRoutines ''('' ''/'' '')'')
      | POW \<Rightarrow> b_printPre (printRoutines ''pow('' '','' '')'')
      | CONSTPOW \<Rightarrow> b_printPre (printRoutines ''pow('' '','' '')'')
      | EQUALITY \<Rightarrow> b_printPre (printRoutines ''('' ''=='' '')'')
      | FMIN \<Rightarrow> b_printPre (printRoutines ''fmin('' '','' '')'')
      | FMAX \<Rightarrow> b_printPre (printRoutines ''fmax('' '','' '')'')
      | PRINTME \<Rightarrow> b_printPre (printRoutines ''printme('' '','' '')'')
      | _ \<Rightarrow> UnaryOperation_printPre I)"

definition BinaryOperation_printSep :: "Operation \<Rightarrow> string \<Rightarrow> string" where
  "BinaryOperation_printSep I =
     (case I of
        ADD \<Rightarrow> b_printSep (printRoutines ''('' ''+'' '')'')
      | SUB \<Rightarrow> b_printSep (printRoutines ''('' ''-'' '')'')
      | MUL \<Rightarrow> b_printSep (printRoutines ''('' ''*'' '')'')
      | DIV \<Rightarrow> b_printSep (printRoutines ''('' ''/'' '')'')
      | POW \<Rightarrow> b_printSep (printRoutines ''pow('' '','' '')'')
      | CONSTPOW \<Rightarrow> b_printSep (printRoutines ''pow('' '','' '')'')
      | EQUALITY \<Rightarrow> b_printSep (printRoutines ''('' ''=='' '')'')
      | FMIN \<Rightarrow> b_printSep (printRoutines ''fmin('' '','' '')'')
      | FMAX \<Rightarrow> b_printSep (printRoutines ''fmax('' '','' '')'')
      | PRINTME \<Rightarrow> b_printSep (printRoutines ''printme('' '','' '')'')
      | _ \<Rightarrow> (\<lambda>stream. stream))"

definition BinaryOperation_printPost :: "Operation \<Rightarrow> string \<Rightarrow> string" where
  "BinaryOperation_printPost I =
     (case I of
        ADD \<Rightarrow> b_printPost (printRoutines ''('' ''+'' '')'')
      | SUB \<Rightarrow> b_printPost (printRoutines ''('' ''-'' '')'')
      | MUL \<Rightarrow> b_printPost (printRoutines ''('' ''*'' '')'')
      | DIV \<Rightarrow> b_printPost (printRoutines ''('' ''/'' '')'')
      | POW \<Rightarrow> b_printPost (printRoutines ''pow('' '','' '')'')
      | CONSTPOW \<Rightarrow> b_printPost (printRoutines ''pow('' '','' '')'')
      | EQUALITY \<Rightarrow> b_printPost (printRoutines ''('' ''=='' '')'')
      | FMIN \<Rightarrow> b_printPost (printRoutines ''fmin('' '','' '')'')
      | FMAX \<Rightarrow> b_printPost (printRoutines ''fmax('' '','' '')'')
      | PRINTME \<Rightarrow> b_printPost (printRoutines ''printme('' '','' '')'')
      | _ \<Rightarrow> UnaryOperation_printPost I)"

definition BinaryOperation_print :: "Operation \<Rightarrow> string \<Rightarrow> string \<Rightarrow> string \<Rightarrow> string" where
  "BinaryOperation_print I =
     (case I of
        ADD \<Rightarrow> b_print (printRoutines ''('' ''+'' '')'')
      | SUB \<Rightarrow> b_print (printRoutines ''('' ''-'' '')'')
      | MUL \<Rightarrow> b_print (printRoutines ''('' ''*'' '')'')
      | DIV \<Rightarrow> b_print (printRoutines ''('' ''/'' '')'')
      | POW \<Rightarrow> b_print (printRoutines ''pow('' '','' '')'')
      | CONSTPOW \<Rightarrow> b_print (printRoutines ''pow('' '','' '')'')
      | EQUALITY \<Rightarrow> b_print (printRoutines ''('' ''=='' '')'')
      | FMIN \<Rightarrow> b_print (printRoutines ''fmin('' '','' '')'')
      | FMAX \<Rightarrow> b_print (printRoutines ''fmax('' '','' '')'')
      | PRINTME \<Rightarrow> b_print (printRoutines ''printme('' '','' '')'')
      | _ \<Rightarrow> (\<lambda>stream x y.
                BinaryOperation_printPost I (UnaryOperation_printPre I stream @ x)))"

section \<open>The static tables of casadi\_math\<close>

text \<open>
  Every table is a vector of \<open>NUM_BUILT_IN_OPS\<close> entries, created filled with a default
  (\<open>0\<close>, a null function pointer, or \<open>false\<close>) and then assigned entry by entry, in the
  order of the enumeration, from the member of \<open>BinaryOperation<I>\<close> named in the
  assignment. A function pointer is an \<open>option\<close>, \<open>None\<close> when null.
\<close>

definition populate :: "'b \<Rightarrow> (Operation \<Rightarrow> 'b) \<Rightarrow> 'b list" where
  "populate dflt member =
     fold (\<lambda>I ret. ret[enum_value I := member I]) builtin_ops
          (replicate NUM_BUILT_IN_OPS dflt)"

definition getPrintFun :: "(string \<Rightarrow> string \<Rightarrow> string \<Rightarrow> string) option list" where
  "getPrintFun = populate None (\<lambda>I. Some (BinaryOperation_print I))"

definition getPrintPreFun :: "(string \<Rightarrow> string) option list" where
  "getPrintPreFun = populate None (\<lambda>I. Some (BinaryOperation_printPre I))"

definition getPrintSepFun :: "(string \<Rightarrow> string) option list" where
  "getPrintSepFun = populate None (\<lambda>I. Some (BinaryOperation_printSep I))"

definition getPrintPostFun :: "(string \<Rightarrow> string) option list" where
  "getPrintPostFun = populate None (\<lambda>I. Some (BinaryOperation_printPost I))"

definition getNdeps :: "int list" where
  "getNdeps = populate 0 BinaryOperation_ndeps"

definition getCommutative :: "bool list" where
  "getCommutative = populate False BinaryOperation_isCommutative"

definition getF00_is_zero :: "bool list" where
  "getF00_is_zero = populate False BinaryOperation_f00_is_zero"

definition getF0x_is_zero :: "bool list" where
  "getF0x_is_zero = populate False BinaryOperation_f0x_is_zero"

definition getFx0_is_zero :: "bool list" where
  "getFx0_is_zero = populate False BinaryOperation_fx0_is_zero"

text \<open>The static members, each initialised from its \<open>get\<close> routine, read at an enumerator.\<close>

definition ndeps :: "Operation \<Rightarrow> int" where
  "ndeps I = getNdeps ! enum_value I"

definition isCommutative :: "Operation \<Rightarrow> bool" where
  "isCommutative I = getCommutative ! enum_value I"

definition f00_is_zero :: "Operation \<Rightarrow> bool" where
  "f00_is_zero I = getF00_is_zero ! enum_value I"

definition f0x_is_zero :: "Operation \<Rightarrow> bool" where
  "f0x_is_zero I = getF0x_is_zero ! enum_value I"

definition fx0_is_zero :: "Operation \<Rightarrow> bool" where
  "fx0_is_zero I = getFx0_is_zero ! enum_value I"

text \<open>
  A call through a table of function pointers: the text on the stream after the call,
  or \<open>None\<close> when the entry is null.
\<close>

definition print :: "Operation \<Rightarrow> string \<Rightarrow> string \<Rightarrow> string \<Rightarrow> string option" where
  "print I stream x y = map_option (\<lambda>p. p stream x y) (getPrintFun ! enum_value I)"

definition printPre :: "Operation \<Rightarrow> string \<Rightarrow> string option" where
  "printPre I stream = map_option (\<lambda>p. p stream) (getPrintPreFun ! enum_value I)"

definition printSep :: "Operation \<Rightarrow> string \<Rightarrow> string option" where
  "printSep I stream = map_option (\<lambda>p. p stream) (getPrintSepFun ! enum_value I)"

definition printPost :: "Operation \<Rightarrow> string \<Rightarrow> string option" where
  "printPost I stream = map_option (\<lambda>p. p stream) (getPrintPostFun ! enum_value I)"

section \<open>The routines on storage\<close>

text \<open>
  The routines take their operands by reference and their outputs by reference or
  pointer, so the caller decides which of them are the same object. Here storage is a
  map from locations to values of \<open>T\<close>: the caller's cells, numbered, and the local
  \<open>ff\<close> of \<open>derFNew\<close>, which is no cell of the caller. The array \<open>d\<close> is the pair of
  caller cells \<open>d\<close> and \<open>d + 1\<close>.

  Every \<open>fcn\<close> body is one assignment to \<open>f\<close> of an expression in \<open>x\<close> and \<open>y\<close>, and
  every \<open>UnaryOperation<I>::der\<close> body is one assignment to \<open>d[0]\<close> of an expression in
  \<open>x\<close> and \<open>f\<close>; the expressions are those of the section on values. The bodies of
  \<open>BinaryOperation<I>::der\<close> are two assignments, in the order written here.
\<close>

datatype loc = Caller nat | Local_ff

type_synonym 'a store = "loc \<Rightarrow> 'a"

definition BinaryOperation_fcn_st ::
  "'a arith \<Rightarrow> Operation \<Rightarrow> loc \<Rightarrow> loc \<Rightarrow> loc \<Rightarrow> 'a store \<Rightarrow> 'a store" where
  "BinaryOperation_fcn_st T I x y f h =
     h(f := BinaryOperation_fcn T I (h x) (h y) (h f))"

definition UnaryOperation_der_st ::
  "'a arith \<Rightarrow> Operation \<Rightarrow> loc \<Rightarrow> loc \<Rightarrow> nat \<Rightarrow> 'a store \<Rightarrow> 'a store" where
  "UnaryOperation_der_st T I x f d h =
     h(Caller d :=
         fst (UnaryOperation_der T I (h x) (h f) (h (Caller d), h (Caller (d + 1)))))"

definition BinaryOperation_der_st ::
  "'a arith \<Rightarrow> Operation \<Rightarrow> loc \<Rightarrow> loc \<Rightarrow> loc \<Rightarrow> nat \<Rightarrow> 'a store \<Rightarrow> 'a store" where
  "BinaryOperation_der_st T I x y f d h =
     (let d0 = Caller d; d1 = Caller (d + 1) in
      case I of
        ADD \<Rightarrow> (let h1 = h(d1 := lit T 1) in h1(d0 := h1 d1))
      | SUB \<Rightarrow> (let h1 = h(d0 := lit T 1) in h1(d1 := lit T (- 1)))
      | MUL \<Rightarrow> (let h1 = h(d0 := h y) in h1(d1 := h1 x))
      | DIV \<Rightarrow> (let h1 = h(d0 := op_div T (lit T 1) (h y))
                in h1(d1 := op_div T (op_neg T (h1 f)) (h1 y)))
      | POW \<Rightarrow> (let h1 = h(d0 := op_mul T (h y) (f_pow T (h x) (op_sub T (h y) (lit T 1))))
                in h1(d1 := op_mul T (f_log T (h1 x)) (h1 f)))
      | CONSTPOW \<Rightarrow>
               (let h1 = h(d0 := op_mul T (h y) (f_pow T (h x) (op_sub T (h y) (lit T 1))))
                in h1(d1 := lit T 0))
      | EQUALITY \<Rightarrow> (let h1 = h(d1 := lit T 0) in h1(d0 := h1 d1))
      | FMIN \<Rightarrow> (let h1 = h(d0 := op_le T (h x) (h y)) in h1(d1 := op_not T (h1 d0)))
      | FMAX \<Rightarrow> (let h1 = h(d0 := op_ge T (h x) (h y)) in h1(d1 := op_not T (h1 d0)))
      | PRINTME \<Rightarrow> (let h1 = h(d0 := lit T 1) in h1(d1 := lit T 0))
      | _ \<Rightarrow> (let h1 = UnaryOperation_der_st T I x f d h in h1(d1 := lit T 0)))"

definition derFNew_st ::
  "'a arith \<Rightarrow> 8 word \<Rightarrow> nat \<Rightarrow> nat \<Rightarrow> nat \<Rightarrow> nat \<Rightarrow> 'a \<Rightarrow> 'a store \<Rightarrow> 'a store" where
  \<comment> \<open>\<open>x\<close>, \<open>y\<close>, \<open>f\<close>, \<open>d\<close> are the caller's cells behind the four parameters,
      \<open>ff0\<close> the content of the local \<open>ff\<close> when it is declared\<close>
  "derFNew_st T op x y f d ff0 h =
     (let h0 = h(Local_ff := ff0);
          h2 = (case case_label op of
                  None \<Rightarrow> h0
                | Some PRINTME \<Rightarrow>
                    BinaryOperation_der_st T TANH (Caller x) (Caller y) Local_ff d
                      (BinaryOperation_fcn_st T PRINTME (Caller x) (Caller y) Local_ff h0)
                | Some I \<Rightarrow>
                    BinaryOperation_der_st T I (Caller x) (Caller y) Local_ff d
                      (BinaryOperation_fcn_st T I (Caller x) (Caller y) Local_ff h0))
      in h2(Caller f := h2 Local_ff))"

section \<open>The operand type of exact real numbers\<close>

text \<open>
  An instance of the arithmetic for the numeric claims: the real numbers, with the
  operators and elementary functions of analysis standing for those of a finite
  \<open>double\<close>. Rounding is not modelled. A comparison stored into a \<open>T\<close> is \<open>1\<close> or \<open>0\<close>;
  \<open>!\<close> of a \<open>T\<close> is \<open>1\<close> when it is zero and \<open>0\<close> otherwise. Where the C library has no
  finite result (a division by zero, a logarithm or a root outside its domain, a pole of
  \<open>pow\<close>), the reals have no value to stand for it; the instance has HOL's value of the
  total function there, and no statement below evaluates it at such a point.
\<close>

definition of_bool_real :: "bool \<Rightarrow> real" where
  "of_bool_real b = (if b then 1 else 0)"

definition pow_real :: "real \<Rightarrow> real \<Rightarrow> real" where
  \<comment> \<open>\<open>pow\<close> of the C library where its result is finite\<close>
  "pow_real x y =
     (if y = 0 then 1
      else if 0 < x then x powr y
      else if x = 0 then 0
      else if of_int \<lfloor>y\<rfloor> = y then x powi \<lfloor>y\<rfloor>
      else 0)"

definition erf_real :: "real \<Rightarrow> real" where
  \<comment> \<open>the error function, by its power series at zero\<close>
  "erf_real x =
     2 / sqrt pi * (\<Sum>n. (- 1) ^ n * x ^ (2 * n + 1) / (fact n * of_nat (2 * n + 1)))"

definition real_arith :: "real arith" where
  "real_arith =
     \<lparr> lit = of_int,
       M_PI = pi,
       op_add = (\<lambda>x y. x + y),
       op_sub = (\<lambda>x y. x - y),
       op_mul = (\<lambda>x y. x * y),
       op_div = (\<lambda>x y. x / y),
       op_neg = (\<lambda>x. - x),
       op_ge = (\<lambda>x y. of_bool_real (x \<ge> y)),
       op_le = (\<lambda>x y. of_bool_real (x \<le> y)),
       op_eq = (\<lambda>x y. of_bool_real (x = y)),
       op_not = (\<lambda>x. of_bool_real (x = 0)),
       f_exp = exp,
       f_log = ln,
       f_pow = pow_real,
       f_sqrt = sqrt,
       f_sin = sin,
       f_cos = cos,
       f_tan = tan,
       f_asin = arcsin,
       f_acos = arccos,
       f_atan = arctan,
       f_floor = (\<lambda>x. of_int \<lfloor>x\<rfloor>),
       f_ceil = (\<lambda>x. of_int \<lceil>x\<rceil>),
       f_erf = erf_real,
       f_fmin = min,
       f_fmax = max,
       f_sinh = sinh,
       f_cosh = cosh,
       f_tanh = tanh \<rparr>"

section \<open>Facts about the enumeration and the tables\<close>

lemma case_label_op_code: "case_label (op_code I) = Some I"
  by (cases I)
     (simp_all add: case_label_def op_code_def enum_value_def NUM_BUILT_IN_OPS_def
        builtin_ops_def)

lemma case_label_out_of_range: "NUM_BUILT_IN_OPS \<le> unat op \<Longrightarrow> case_label op = None"
  by (simp add: case_label_def)

lemma populate_nth: "populate dflt member ! enum_value I = member I"
  by (cases I)
     (simp_all add: populate_def enum_value_def NUM_BUILT_IN_OPS_def builtin_ops_def
        eval_nat_numeral)

lemmas table_simps =
  ndeps_def isCommutative_def f00_is_zero_def f0x_is_zero_def fx0_is_zero_def
  getNdeps_def getCommutative_def getF00_is_zero_def getF0x_is_zero_def getFx0_is_zero_def
  populate_nth BinaryOperation_ndeps_def UnaryOperation_ndeps_def

lemmas print_simps =
  print_def printPre_def printSep_def printPost_def
  getPrintFun_def getPrintPreFun_def getPrintSepFun_def getPrintPostFun_def
  BinaryOperation_print_def BinaryOperation_printPre_def BinaryOperation_printSep_def
  BinaryOperation_printPost_def UnaryOperation_printPre_def UnaryOperation_printPost_def
  UnaryOperation_printers_def printRoutines_def printRoutinesUnary_def

lemma ndeps_unary_iff:
  "ndeps I = 1 \<longleftrightarrow>
   I \<in> {NEG, EXP, LOG, SQRT, SIN, COS, TAN, ASIN, ACOS, ATAN, STEP, FLOOR, CEIL,
        ERF, INV, SINH, COSH, TANH}"
  by (cases I) (simp_all add: table_simps)

lemma ndeps_binary_iff:
  "ndeps I = 2 \<longleftrightarrow>
   I \<in> {ADD, SUB, MUL, DIV, POW, CONSTPOW, EQUALITY, FMIN, FMAX, PRINTME}"
  by (cases I) (simp_all add: table_simps)

lemma erf_real_0: "erf_real 0 = 0"
  by (simp add: erf_real_def)

section \<open>The claims\<close>

subsection \<open>C1: the partial of COSH\<close>

text \<open>
  C1 says that the partial-derivative rule of \<open>COSH\<close> returns \<open>d0 = sinh x\<close> (and
  \<open>d1 = 0\<close>). \<open>UnaryOperation<COSH>::der\<close> stores \<open>-sinh(x)\<close>: at \<open>x = 1\<close> the dispatch
  returns \<open>(- sinh 1, 0)\<close>, and \<open>- sinh 1\<close> is not \<open>sinh 1\<close>.
\<close>

theorem COSH_der_is_negated_sinh:
  "derNew real_arith (op_code COSH) 1 0 (cosh 1) (0, 0) = (- sinh 1, 0)
   \<and> - sinh (1::real) \<noteq> sinh 1"
  by (simp add: derNew_def case_label_op_code BinaryOperation_der_def
        UnaryOperation_der_def real_arith_def)

subsection \<open>C2: the partials of PRINTME\<close>

text \<open>
  C2 says that the dispatch of the partials returns \<open>(1, 0)\<close> for \<open>PRINTME\<close>. The class
  \<open>BinaryOperation<PRINTME>\<close> has that rule, but the \<open>PRINTME\<close> case of \<open>derNew\<close> and of
  \<open>derFNew\<close> calls \<open>BinaryOperation<TANH>::der\<close>, which stores \<open>1 - f*f\<close>: at \<open>x = 2\<close>,
  where \<open>f = 2\<close>, both return the first partial \<open>-3\<close>.
\<close>

theorem PRINTME_dispatch_uses_TANH_rule:
  "derNew real_arith (op_code PRINTME) 2 0 2 (0, 0) = (- 3, 0)
   \<and> derFNew real_arith (op_code PRINTME) 2 0 0 (0, 0) 0 = (2, - 3, 0)
   \<and> BinaryOperation_der real_arith PRINTME 2 0 2 (0, 0) = (1, 0)"
  by (simp add: derNew_def derFNew_def case_label_op_code BinaryOperation_der_def
        BinaryOperation_fcn_def UnaryOperation_der_def real_arith_def)

subsection \<open>C3: the commutativity flag\<close>

text \<open>
  C3 says that for every operation whose commutativity flag is set, evaluation gives the
  same result with the operands exchanged. The flag is set for every one-operand
  operation (the primary template of \<open>BinaryOperation\<close> returns \<open>true\<close>), and those
  evaluate their first operand only: \<open>NEG\<close> at \<open>(1, 2)\<close> is \<open>-1\<close>, at \<open>(2, 1)\<close> it is \<open>-2\<close>.
\<close>

theorem commutative_flag_NEG_counterexample:
  "isCommutative NEG \<and>
   funNew real_arith (op_code NEG) 1 2 0 \<noteq> funNew real_arith (op_code NEG) 2 1 0"
  by (simp add: table_simps BinaryOperation_isCommutative_def funNew_def case_label_op_code
        BinaryOperation_fcn_def UnaryOperation_fcn_def real_arith_def)

text \<open>
  C3, amended: for every two-operand operation whose commutativity flag is set (these
  are \<open>ADD\<close>, \<open>MUL\<close>, \<open>FMIN\<close>, \<open>FMAX\<close>), evaluation over the reals gives the same result
  with the operands exchanged, whatever the output held before.
\<close>

theorem commutative_flag_sound_binary:
  "isCommutative I \<Longrightarrow> ndeps I = 2 \<Longrightarrow>
   funNew real_arith (op_code I) x y f = funNew real_arith (op_code I) y x f'"
  by (cases I)
     (simp_all add: table_simps BinaryOperation_isCommutative_def funNew_def
        case_label_op_code BinaryOperation_fcn_def real_arith_def min.commute max.commute)

theorem commutative_flag_sound_binary_witness:
  "isCommutative FMIN \<and> ndeps FMIN = 2 \<and>
   funNew real_arith (op_code FMIN) (3 / 2) (5 / 2) 0
     = funNew real_arith (op_code FMIN) (5 / 2) (3 / 2) 0"
  using commutative_flag_sound_binary [of FMIN "3 / 2" "5 / 2" 0 0]
  by (simp add: table_simps BinaryOperation_isCommutative_def)

subsection \<open>C4: the zero-absorption flags\<close>

text \<open>
  C4: for every operation and each of the flags \<open>f00_is_zero\<close>, \<open>f0x_is_zero\<close>,
  \<open>fx0_is_zero\<close> that is set for it, evaluation over the reals gives exactly zero on
  the operand pattern of the flag: both operands zero; the first zero and the second
  not; the second zero and the first not.
\<close>

theorem zero_absorption_sound:
  "(f00_is_zero I \<longrightarrow> funNew real_arith (op_code I) 0 0 f = 0) \<and>
   (f0x_is_zero I \<longrightarrow> y \<noteq> 0 \<longrightarrow> funNew real_arith (op_code I) 0 y f = 0) \<and>
   (fx0_is_zero I \<longrightarrow> x \<noteq> 0 \<longrightarrow> funNew real_arith (op_code I) x 0 f = 0)"
  by (cases I)
     (simp_all add: table_simps BinaryOperation_f00_is_zero_def
        BinaryOperation_f0x_is_zero_def BinaryOperation_fx0_is_zero_def
        UnaryOperation_f0_is_zero_def funNew_def case_label_op_code
        BinaryOperation_fcn_def UnaryOperation_fcn_def real_arith_def erf_real_0)

theorem zero_absorption_sound_witness:
  "f00_is_zero MUL \<and> f0x_is_zero MUL \<and> fx0_is_zero MUL \<and> (7::real) \<noteq> 0 \<and>
   funNew real_arith (op_code MUL) 0 0 5 = 0 \<and>
   funNew real_arith (op_code MUL) 0 7 5 = 0 \<and>
   funNew real_arith (op_code MUL) 7 0 5 = 0"
  using zero_absorption_sound [of MUL 5 7 7]
  by (simp add: table_simps BinaryOperation_f00_is_zero_def
        BinaryOperation_f0x_is_zero_def BinaryOperation_fx0_is_zero_def)

subsection \<open>C5: evaluation and partials together\<close>

text \<open>
  C5: for every operation, \<open>derFNew\<close> first evaluates into its local \<open>ff\<close> and then
  computes the partials from that value, so the \<open>f\<close> and the \<open>d\<close> it leaves are those of
  \<open>funNew\<close> followed by \<open>derNew\<close> on that \<open>f\<close>; and this also holds when the caller's
  cell for \<open>f\<close> is the cell of \<open>x\<close> or of \<open>y\<close>. On storage, \<open>x\<close>, \<open>y\<close> and \<open>f\<close> are any
  caller cells, equal or not; the two cells of \<open>d\<close> are none of them, as a result of
  three separate values requires. The last conjunct is the same statement for the
  routines on values.
\<close>

theorem derFNew_is_funNew_then_derNew:
  assumes "d \<notin> {x, y, f}" and "d + 1 \<notin> {x, y, f}"
  shows "let X = h (Caller x); Y = h (Caller y);
             F = funNew T (op_code I) X Y fa;
             h' = derFNew_st T (op_code I) x y f d tmp h
         in h' (Caller f) = F \<and> h' Local_ff = F
          \<and> (h' (Caller d), h' (Caller (d + 1))) = derNew T (op_code I) X Y F da
          \<and> derFNew T (op_code I) X Y fin din tmp = (F, derNew T (op_code I) X Y F din)"
  using assms
  by (cases I)
     (simp_all add: Let_def funNew_def derNew_def derFNew_def derFNew_st_def
        case_label_op_code BinaryOperation_fcn_def BinaryOperation_der_def
        BinaryOperation_fcn_st_def BinaryOperation_der_st_def UnaryOperation_der_st_def
        UnaryOperation_fcn_def UnaryOperation_der_def)

text \<open>The witness has the output \<open>f\<close> in the cell of \<open>x\<close>.\<close>

theorem derFNew_is_funNew_then_derNew_witness:
  "(2::nat) \<notin> {0, 1, 0} \<and> (2::nat) + 1 \<notin> {0, 1, 0} \<and>
   (let h = (\<lambda>l. 0)(Caller 0 := 6, Caller 1 := 2);
        h' = derFNew_st real_arith (op_code DIV) 0 1 0 2 0 h
    in h' (Caller 0) = funNew real_arith (op_code DIV) 6 2 0
     \<and> (h' (Caller 2), h' (Caller 3)) = derNew real_arith (op_code DIV) 6 2 3 (0, 0)
     \<and> h' (Caller 0) = 3 \<and> h' (Caller 2) = 1 / 2 \<and> h' (Caller 3) = - 3 / 2)"
  using derFNew_is_funNew_then_derNew
      [where d = 2 and x = 0 and y = 1 and f = 0 and T = real_arith and I = DIV
         and h = "(\<lambda>l. 0)(Caller 0 := 6, Caller 1 := 2)" and tmp = 0 and fa = 0
         and da = "(0, 0)" and fin = 0 and din = "(0, 0)"]
  by (simp add: Let_def funNew_def derNew_def case_label_op_code BinaryOperation_fcn_def
        BinaryOperation_der_def real_arith_def)

subsection \<open>C6: the second partial of a one-operand operation\<close>

text \<open>
  C6: for every one-operand operation, whatever the operand type, the operands, the
  output \<open>f\<close> supplied and the former content of \<open>d\<close>, the dispatch of the partials
  returns the second partial zero.
\<close>

theorem unary_second_partial_zero:
  "ndeps I = 1 \<Longrightarrow> snd (derNew T (op_code I) x y f d) = lit T 0"
  by (cases I)
     (simp_all add: table_simps derNew_def case_label_op_code BinaryOperation_der_def)

theorem unary_second_partial_zero_witness:
  "ndeps SQRT = 1 \<and> snd (derNew real_arith (op_code SQRT) 4 9 2 (5, 5)) = 0"
  using unary_second_partial_zero [of SQRT real_arith 4 9 2 "(5, 5)"]
  by (simp add: table_simps real_arith_def)

subsection \<open>C7: DIV at 6 and 2\<close>

text \<open>
  C7: \<open>derFNew\<close> for \<open>DIV\<close> at \<open>x = 6\<close>, \<open>y = 2\<close> returns \<open>f = 3\<close>, \<open>d0 = 0.5\<close>,
  \<open>d1 = -1.5\<close>, over the reals (the three quotients are exact in binary floating point
  as well).
\<close>

theorem derFNew_DIV_6_2:
  "derFNew real_arith (op_code DIV) 6 2 f d tmp = (3, 1 / 2, - 3 / 2)"
  by (simp add: derFNew_def case_label_op_code BinaryOperation_fcn_def
        BinaryOperation_der_def real_arith_def)

subsection \<open>C8: the printer\<close>

text \<open>
  C8: every operation has a prefix, a separator and a postfix, which \<open>printPre\<close>,
  \<open>printSep\<close> and \<open>printPost\<close> append to the stream; a two-operand operation prints
  prefix, first operand, separator, second operand, postfix; a one-operand operation has
  the empty separator and prints prefix, first operand, postfix, whatever the second
  operand. \<open>ADD\<close> of \<open>a\<close> and \<open>b\<close> prints \<open>(a+b)\<close>, \<open>SQRT\<close> of \<open>a\<close> prints \<open>sqrt(a)\<close> and
  \<open>INV\<close> of \<open>a\<close> prints \<open>(1/a)\<close>.
\<close>

theorem print_grammar:
  "(\<exists>pre sep post. \<forall>stream x y.
       printPre I stream = Some (stream @ pre) \<and>
       printSep I stream = Some (stream @ sep) \<and>
       printPost I stream = Some (stream @ post) \<and>
       (ndeps I = 2 \<longrightarrow> print I stream x y = Some (stream @ pre @ x @ sep @ y @ post)) \<and>
       (ndeps I = 1 \<longrightarrow> sep = [] \<and> print I stream x y = Some (stream @ pre @ x @ post)))
   \<and> print ADD [] ''a'' ''b'' = Some ''(a+b)''
   \<and> print SQRT [] ''a'' y' = Some ''sqrt(a)''
   \<and> print INV [] ''a'' y' = Some ''(1/a)''"
  by (cases I) (simp_all add: print_simps table_simps)

theorem print_grammar_witness:
  "ndeps ADD = 2 \<and> ndeps SQRT = 1 \<and>
   (\<exists>pre sep post. \<forall>stream x y.
       print ADD stream x y = Some (stream @ pre @ x @ sep @ y @ post)) \<and>
   (\<exists>pre post. \<forall>stream x y. print SQRT stream x y = Some (stream @ pre @ x @ post))"
proof -
  have a: "ndeps ADD = 2" and s: "ndeps SQRT = 1"
    by (simp_all add: table_simps)
  from print_grammar [of ADD "[]"] a
  have "\<exists>pre sep post. \<forall>stream x y.
       print ADD stream x y = Some (stream @ pre @ x @ sep @ y @ post)"
    by blast
  moreover from print_grammar [of SQRT "[]"] s
  have "\<exists>pre post. \<forall>stream x y. print SQRT stream x y = Some (stream @ pre @ x @ post)"
    by blast
  ultimately show ?thesis using a s by blast
qed

subsection \<open>C9: a byte that is no operation\<close>

text \<open>
  C9: for every byte from \<open>NUM_BUILT_IN_OPS\<close> up, \<open>funNew\<close> returns with \<open>f\<close> as it was
  and \<open>derNew\<close> with \<open>d[0]\<close> and \<open>d[1]\<close> as they were. Neither routine has a path that
  raises: no case of the \<open>switch\<close> is selected and there is no \<open>default\<close>.
\<close>

theorem out_of_range_op_unchanged:
  "NUM_BUILT_IN_OPS \<le> unat op \<Longrightarrow>
   case_label op = None \<and> funNew T op x y f = f \<and> derNew T op x y f d = d"
  by (simp add: funNew_def derNew_def case_label_out_of_range)

theorem out_of_range_op_unchanged_witness:
  "NUM_BUILT_IN_OPS \<le> unat (28 :: 8 word) \<and> NUM_BUILT_IN_OPS \<le> unat (255 :: 8 word) \<and>
   funNew real_arith 28 1 2 3 = 3 \<and> derNew real_arith 28 1 2 3 (4, 5) = (4, 5) \<and>
   funNew real_arith 255 1 2 3 = 3 \<and> derNew real_arith 255 1 2 3 (4, 5) = (4, 5)"
  using out_of_range_op_unchanged [of 28 real_arith 1 2 3 "(4, 5)"]
        out_of_range_op_unchanged [of 255 real_arith 1 2 3 "(4, 5)"]
  by (simp add: NUM_BUILT_IN_OPS_def)

subsection \<open>C10: the zero flags of a one-operand operation\<close>

text \<open>
  C10: for every one-operand operation the table entries satisfy
  \<open>f0x_is_zero = f00_is_zero\<close>, both being the \<open>f0_is_zero\<close> of its \<open>UnaryOperation\<close>
  class, and \<open>fx0_is_zero\<close> is false.
\<close>

theorem unary_zero_flags:
  "ndeps I = 1 \<Longrightarrow>
   f0x_is_zero I = f00_is_zero I \<and> f00_is_zero I = UnaryOperation_f0_is_zero I \<and>
   \<not> fx0_is_zero I"
  by (cases I)
     (simp_all add: table_simps BinaryOperation_f00_is_zero_def
        BinaryOperation_f0x_is_zero_def BinaryOperation_fx0_is_zero_def)

theorem unary_zero_flags_witness:
  "ndeps NEG = 1 \<and> f0x_is_zero NEG = f00_is_zero NEG \<and>
   f00_is_zero NEG = UnaryOperation_f0_is_zero NEG \<and> \<not> fx0_is_zero NEG"
  using unary_zero_flags [of NEG]
  by (simp add: table_simps)

end
